theory Spec2Isabelle
  imports Complex_Main "HOL-Library.AList"
begin

section \<open>Floating-point values and quantities\<close>

text \<open>
  The measurement functions of \<^verbatim>\<open>validate_drp\<close> compute with numpy floats wrapped in
  astropy quantities. A float is modelled as NaN, one of the two infinities, or a finite
  value; finite values are idealised as reals, so rounding, overflow of finite results
  and the sign of zero are outside the model. The operations follow IEEE 754 on the
  special values: NaN is absorbing, \<open>inf - inf\<close> and \<open>0 * inf\<close> are NaN, and every
  ordered comparison with NaN is false.
\<close>

datatype pyfloat = NaN | PInf | NInf | Fin real

fun np_isnan :: "pyfloat \<Rightarrow> bool" where
  "np_isnan NaN = True"
| "np_isnan _ = False"

fun fneg :: "pyfloat \<Rightarrow> pyfloat" where
  "fneg NaN = NaN"
| "fneg PInf = NInf"
| "fneg NInf = PInf"
| "fneg (Fin a) = Fin (- a)"

fun fadd :: "pyfloat \<Rightarrow> pyfloat \<Rightarrow> pyfloat" where
  "fadd NaN _ = NaN"
| "fadd _ NaN = NaN"
| "fadd PInf NInf = NaN"
| "fadd NInf PInf = NaN"
| "fadd PInf _ = PInf"
| "fadd _ PInf = PInf"
| "fadd NInf _ = NInf"
| "fadd _ NInf = NInf"
| "fadd (Fin a) (Fin b) = Fin (a + b)"

definition fsub :: "pyfloat \<Rightarrow> pyfloat \<Rightarrow> pyfloat" where
  "fsub a b = fadd a (fneg b)"

fun fsgn :: "pyfloat \<Rightarrow> int" where
  "fsgn NaN = 0"
| "fsgn PInf = 1"
| "fsgn NInf = - 1"
| "fsgn (Fin a) = (if a < 0 then - 1 else if a = 0 then 0 else 1)"

fun fmul :: "pyfloat \<Rightarrow> pyfloat \<Rightarrow> pyfloat" where
  "fmul NaN _ = NaN"
| "fmul _ NaN = NaN"
| "fmul (Fin a) (Fin b) = Fin (a * b)"
| "fmul a b =
     (if fsgn a * fsgn b = 0 then NaN else if fsgn a * fsgn b > 0 then PInf else NInf)"

fun fabs :: "pyfloat \<Rightarrow> pyfloat" where
  "fabs NaN = NaN"
| "fabs PInf = PInf"
| "fabs NInf = PInf"
| "fabs (Fin a) = Fin \<bar>a\<bar>"

text \<open>\<open>fgt a b\<close> is the comparison \<^verbatim>\<open>a > b\<close>; \<open>fle a b\<close> is \<^verbatim>\<open>a <= b\<close>.\<close>

fun fgt :: "pyfloat \<Rightarrow> pyfloat \<Rightarrow> bool" where
  "fgt NaN _ = False"
| "fgt _ NaN = False"
| "fgt _ PInf = False"
| "fgt PInf _ = True"
| "fgt NInf _ = False"
| "fgt (Fin a) NInf = True"
| "fgt (Fin a) (Fin b) = (b < a)"

fun fle :: "pyfloat \<Rightarrow> pyfloat \<Rightarrow> bool" where
  "fle NaN _ = False"
| "fle _ NaN = False"
| "fle _ PInf = True"
| "fle PInf _ = False"
| "fle NInf _ = True"
| "fle (Fin a) NInf = False"
| "fle (Fin a) (Fin b) = (a \<le> b)"

text \<open>
  The value of an astropy \<^verbatim>\<open>Quantity\<close> is a scalar, a one-dimensional array or a
  two-dimensional array (a list of rows). Quantities that the code combines are taken
  to be expressed in one common unit (astropy's unit conversion is an external
  collaborator); the unit is kept as a label where the code reads or attaches it.
\<close>

datatype qvalue = Scalar pyfloat | Array1 "pyfloat list" | Array2 "pyfloat list list"

fun elems :: "qvalue \<Rightarrow> pyfloat list" where
  "elems (Scalar x) = [x]"
| "elems (Array1 xs) = xs"
| "elems (Array2 rows) = concat rows"

record quantity =
  qvalue :: qvalue
  unit :: string

text \<open>A scalar quantity, as \<^verbatim>\<open>Measurement.quantity\<close> and a specification threshold are.\<close>

record squantity =
  svalue :: pyfloat
  sunit :: string

datatype pyerror = KeyError | IndexError | ValueError | TypeError | OverflowError
  | AttributeError | OtherError

section \<open>\<^verbatim>\<open>lsst.verify\<close> data model\<close>

record datum =
  datum_quantity :: quantity
  description :: string

type_synonym extras = "string \<rightharpoonup> datum"

record measurement =
  metric :: string
  quantity :: squantity
  extras :: extras

text \<open>A threshold specification exposes its threshold quantity and a datum describing it.\<close>

record threshold_spec =
  threshold :: squantity
  datum :: datum

definition Measurement :: "string \<Rightarrow> squantity \<Rightarrow> extras \<Rightarrow> measurement" where
  "Measurement m q ex = \<lparr>metric = m, quantity = q, extras = ex\<rparr>"

section \<open>AFx: \<^verbatim>\<open>calcsrd/afx.py\<close>\<close>

text \<open>
  \<^verbatim>\<open>np.mean\<close> of a boolean array: the entries are summed as floats (True is 1, False is
  0) and the sum is divided by the number of entries; the mean of an empty array is NaN.
\<close>

definition np_mean :: "bool list \<Rightarrow> pyfloat" where
  "np_mean bs =
     (if bs = [] then NaN
      else Fin (sum_list (map (\<lambda>b. if b then 1 else 0) bs) / real (length bs)))"

text \<open>
  \<^verbatim>\<open>
  def measureAFx(metric, amx, adx, adx_spec):
      datums = {}
      datums['ADx'] = adx.datum
      if not np.isnan(amx.quantity):
          quantity = 100.*np.mean(amx.extras['rmsDistMas'].quantity
                                  > amx.quantity + adx_spec.threshold)*u.Unit('percent')
      else:
          quantity = np.nan*u.Unit('percent')
      datums.update(amx.extras)
      return Measurement(metric, quantity, extras=datums)
  \<close>
  \<open>afx_quantity\<close> is the \<^verbatim>\<open>if\<close> statement that binds \<^verbatim>\<open>quantity\<close>, given
  \<^verbatim>\<open>amx.quantity\<close> and \<^verbatim>\<open>amx.extras\<close>. A missing \<^verbatim>\<open>'rmsDistMas'\<close> key raises
  \<^verbatim>\<open>KeyError\<close>, but only on the branch that reads it.
\<close>

definition afx_quantity :: "squantity \<Rightarrow> extras \<Rightarrow> threshold_spec \<Rightarrow> pyerror + squantity" where
  "afx_quantity amx_quantity amx_extras adx_spec =
     (if \<not> np_isnan (svalue amx_quantity) then
        (case amx_extras ''rmsDistMas'' of
           None \<Rightarrow> Inl KeyError
         | Some d \<Rightarrow>
             Inr \<lparr>svalue =
                    fmul (Fin 100)
                      (np_mean (map (\<lambda>x. fgt x (fadd (svalue amx_quantity)
                                                     (svalue (threshold adx_spec))))
                                    (elems (qvalue (datum_quantity d))))),
                  sunit = ''percent''\<rparr>)
      else Inr \<lparr>svalue = NaN, sunit = ''percent''\<rparr>)"

definition measureAFx ::
  "string \<Rightarrow> measurement \<Rightarrow> threshold_spec \<Rightarrow> threshold_spec \<Rightarrow> pyerror + measurement" where
  "measureAFx metric' amx adx adx_spec =
     (let datums = Map.empty(''ADx'' \<mapsto> datum adx) in
      case afx_quantity (quantity amx) (extras amx) adx_spec of
        Inl e \<Rightarrow> Inl e
      | Inr quantity' \<Rightarrow> Inr (Measurement metric' quantity' (datums ++ extras amx)))"

subsection \<open>AFx on an explicit store\<close>

text \<open>
  Python passes the AMx measurement and its extras dictionary by reference, so what the
  call does to its argument is stated on a store. An address is an index into the list
  of allocated objects; allocation appends. A measurement object holds the address of
  its extras dictionary; datums are immutable values.
\<close>

datatype obj = DictObj extras | MeasObj string squantity nat

type_synonym store = "obj list"

definition lookup :: "store \<Rightarrow> nat \<Rightarrow> obj option" where
  "lookup s a = (if a < length s then Some (s ! a) else None)"

definition alloc :: "store \<Rightarrow> obj \<Rightarrow> nat \<times> store" where
  "alloc s ob = (length s, s @ [ob])"

text \<open>\<^verbatim>\<open>d[k] = v\<close> and \<^verbatim>\<open>d.update(other)\<close> on the dictionary at address \<open>a\<close>.\<close>

definition dict_setitem :: "store \<Rightarrow> nat \<Rightarrow> string \<Rightarrow> datum \<Rightarrow> store" where
  "dict_setitem s a k v =
     (case lookup s a of Some (DictObj m) \<Rightarrow> s[a := DictObj (m(k \<mapsto> v))] | _ \<Rightarrow> s)"

definition dict_update :: "store \<Rightarrow> nat \<Rightarrow> extras \<Rightarrow> store" where
  "dict_update s a other =
     (case lookup s a of Some (DictObj m) \<Rightarrow> s[a := DictObj (m ++ other)] | _ \<Rightarrow> s)"

text \<open>The measurement that the object at an address denotes, read through its extras.\<close>

definition meas_at :: "store \<Rightarrow> nat \<Rightarrow> measurement option" where
  "meas_at s a =
     (case lookup s a of
        Some (MeasObj m q e) \<Rightarrow>
          (case lookup s e of
             Some (DictObj ex) \<Rightarrow> Some \<lparr>metric = m, quantity = q, extras = ex\<rparr>
           | _ \<Rightarrow> None)
      | _ \<Rightarrow> None)"

text \<open>
  The same function, statement by statement, on the store: \<open>amx\<close> is the address of the
  AMx measurement; the result is the address of the new measurement, or the exception
  raised, together with the store the call leaves behind.
\<close>

definition measureAFx_st ::
  "string \<Rightarrow> nat \<Rightarrow> threshold_spec \<Rightarrow> threshold_spec \<Rightarrow> store \<Rightarrow> (pyerror + nat) \<times> store" where
  "measureAFx_st metric' amx adx adx_spec s =
     (let (datums, s1) = alloc s (DictObj Map.empty);
          s2 = dict_setitem s1 datums ''ADx'' (datum adx)
      in case lookup s2 amx of
           Some (MeasObj amx_metric amx_quantity amx_extras) \<Rightarrow>
             (case lookup s2 amx_extras of
                Some (DictObj ex) \<Rightarrow>
                  (case afx_quantity amx_quantity ex adx_spec of
                     Inl e \<Rightarrow> (Inl e, s2)
                   | Inr quantity' \<Rightarrow>
                       (let s3 = dict_update s2 datums ex;
                            (r, s4) = alloc s3 (MeasObj metric' quantity' datums)
                        in (Inr r, s4)))
              | _ \<Rightarrow> (Inl AttributeError, s2))
         | _ \<Rightarrow> (Inl AttributeError, s2))"

section \<open>PA2: \<^verbatim>\<open>calcsrd/pa2.py\<close>\<close>

text \<open>
  \<^verbatim>\<open>np.sort\<close> on an array without NaN, as an insertion sort on the float order.
\<close>

fun finsort :: "pyfloat \<Rightarrow> pyfloat list \<Rightarrow> pyfloat list" where
  "finsort x [] = [x]"
| "finsort x (y # ys) = (if fle x y then x # y # ys else y # finsort x ys)"

definition np_sort :: "pyfloat list \<Rightarrow> pyfloat list" where
  "np_sort xs = foldr finsort xs []"

text \<open>
  Modelled from the spec: \<^verbatim>\<open>np.percentile\<close> is numpy's, not the repository's; section
  4.2 fixes it as the percentile with linear interpolation between order statistics,
  numpy's default method. For \<open>n\<close> sorted values the percentile \<open>q\<close> sits at the
  virtual index \<open>q / 100 * (n - 1)\<close>; the result interpolates between its two
  neighbours. \<open>q\<close> outside \<open>[0, 100]\<close> (or NaN) raises \<^verbatim>\<open>ValueError\<close>, an array with a
  NaN gives NaN, and an empty array is taken to raise \<^verbatim>\<open>IndexError\<close>.
\<close>

definition lerp :: "pyfloat \<Rightarrow> pyfloat \<Rightarrow> real \<Rightarrow> pyfloat" where
  "lerp a b t =
     (if 1 / 2 \<le> t then fsub b (fmul (fsub b a) (Fin (1 - t)))
      else fadd a (fmul (fsub b a) (Fin t)))"

definition np_percentile :: "pyfloat list \<Rightarrow> pyfloat \<Rightarrow> pyerror + pyfloat" where
  "np_percentile a q =
     (case q of
        Fin p \<Rightarrow>
          if \<not> (0 \<le> p \<and> p \<le> 100) then Inl ValueError
          else if a = [] then Inl IndexError
          else if list_ex np_isnan a then Inr NaN
          else
            (let s = np_sort a;
                 n = length a;
                 h = p / 100 * real (n - 1);
                 lo = nat \<lfloor>h\<rfloor>;
                 hi = min (lo + 1) (n - 1)
             in Inr (lerp (s ! lo) (s ! hi) (h - real lo)))
      | _ \<Rightarrow> Inl ValueError)"

text \<open>
  \<^verbatim>\<open>quantity[0, :]\<close>: row 0 of a two-dimensional array; \<^verbatim>\<open>IndexError\<close> when there is
  no row 0 or the array has one dimension only, \<^verbatim>\<open>TypeError\<close> on a scalar.
\<close>

fun row0 :: "qvalue \<Rightarrow> pyerror + pyfloat list" where
  "row0 (Array2 (r # rows)) = Inr r"
| "row0 (Scalar x) = Inl TypeError"
| "row0 _ = Inl IndexError"

definition Datum :: "quantity \<Rightarrow> string \<Rightarrow> datum" where
  "Datum q descr = \<lparr>datum_quantity = q, description = descr\<rparr>"

text \<open>
  The product of two units, on unit names: the empty name is the dimensionless unit,
  and the product of a named unit with itself is written with the exponent 2
  (\<^verbatim>\<open>mmag\<close> times \<^verbatim>\<open>mmag\<close> is \<^verbatim>\<open>mmag2\<close>). \<open>times_unit\<close> is \<^verbatim>\<open>quantity * unit\<close>.
\<close>

definition unit_mul :: "string \<Rightarrow> string \<Rightarrow> string" where
  "unit_mul u v =
     (if u = [] then v else if v = [] then u else if u = v then u @ ''2'' else u @ '' '' @ v)"

definition times_unit :: "squantity \<Rightarrow> string \<Rightarrow> squantity" where
  "times_unit q u = \<lparr>svalue = svalue q, sunit = unit_mul (sunit q) u\<rparr>"

text \<open>
  \<^verbatim>\<open>
  def measurePA2(metric, pa1, pf1_thresh):
      datums = {}
      datums['pf1_thresh'] = Datum(quantity=pf1_thresh,
                                   description="Threshold from the PF1 specification")
      # Use first random sample from original PA1 measurement
      magDiffs = pa1.extras['magDiff'].quantity[0, :]
      pf1Percentile = 100.*u.percent - pf1_thresh
      return Measurement(metric,
                         np.percentile(np.abs(magDiffs), pf1Percentile) * magDiffs.unit,
                         extras=datums)
  \<close>
  \<^verbatim>\<open>np.abs(magDiffs)\<close> is a quantity in the unit of \<^verbatim>\<open>magDiffs\<close>, and so is its
  percentile; the code then multiplies that quantity by \<^verbatim>\<open>magDiffs.unit\<close>. The
  threshold is taken to be given in percent.
\<close>

definition measurePA2 :: "string \<Rightarrow> measurement \<Rightarrow> squantity \<Rightarrow> pyerror + measurement" where
  "measurePA2 metric' pa1 pf1_thresh =
     (let datums = Map.empty(''pf1_thresh'' \<mapsto>
            Datum \<lparr>qvalue = Scalar (svalue pf1_thresh), unit = sunit pf1_thresh\<rparr>
                  ''Threshold from the PF1 specification'')
      in case extras pa1 ''magDiff'' of
           None \<Rightarrow> Inl KeyError
         | Some d \<Rightarrow>
             (case row0 (qvalue (datum_quantity d)) of
                Inl e \<Rightarrow> Inl e
              | Inr magDiffs \<Rightarrow>
                  (let pf1Percentile = fsub (Fin 100) (svalue pf1_thresh)
                   in case np_percentile (map fabs magDiffs) pf1Percentile of
                        Inl e \<Rightarrow> Inl e
                      | Inr p \<Rightarrow>
                          Inr (Measurement metric'
                                 (times_unit \<lparr>svalue = p, sunit = unit (datum_quantity d)\<rparr>
                                             (unit (datum_quantity d)))
                                 datums))))"

text \<open>
  The percentile in the words of the specification, on real numbers: sort the values,
  take the virtual index \<open>h = q / 100 * (n - 1)\<close> and interpolate linearly between the
  order statistics at \<open>\<lfloor>h\<rfloor>\<close> and \<open>\<lfloor>h\<rfloor> + 1\<close>.
\<close>

definition linear_percentile :: "real list \<Rightarrow> real \<Rightarrow> real" where
  "linear_percentile xs q =
     (let s = sort xs;
          h = q / 100 * real (length xs - 1);
          i = nat \<lfloor>h\<rfloor>;
          j = min (i + 1) (length xs - 1)
      in s ! i + (s ! j - s ! i) * (h - real i))"

section \<open>Report: \<^verbatim>\<open>performance_summary.py\<close>\<close>

text \<open>
  The values a table cell or a formatter argument can hold: \<^verbatim>\<open>None\<close>, booleans,
  integers, floats, strings, and objects that are none of these.
\<close>

datatype pyval = PNone | PBool bool | PInt int | PFloat pyfloat | PStr string | PObj

subsection \<open>\<^verbatim>\<open>ingest_data\<close>\<close>

text \<open>
  \<^verbatim>\<open>
  def ingest_data(filenames):
      jobs = {}
      for file in filenames:
          job = load_json_output(file)
          filter_name = get_filter_name_from_job(job)
          jobs[filter_name] = job
      return jobs
  \<close>
  \<^verbatim>\<open>load_json_output\<close> and \<^verbatim>\<open>get_filter_name_from_job\<close> live in
  \<^verbatim>\<open>lsst.validate.drp.validate\<close>, which is not among the sources; they are parameters,
  each returning a value or the exception it raises. The dictionary is an association
  list in insertion order: assigning to a key already present replaces its value in
  place, assigning to a new key appends.
\<close>

fun ingest_loop ::
  "(string \<Rightarrow> pyerror + 'job) \<Rightarrow> ('job \<Rightarrow> pyerror + string) \<Rightarrow> (string \<times> 'job) list
     \<Rightarrow> string list \<Rightarrow> pyerror + (string \<times> 'job) list" where
  "ingest_loop load_json_output get_filter_name_from_job jobs [] = Inr jobs"
| "ingest_loop load_json_output get_filter_name_from_job jobs (file # files) =
     (case load_json_output file of
        Inl e \<Rightarrow> Inl e
      | Inr job \<Rightarrow>
          (case get_filter_name_from_job job of
             Inl e \<Rightarrow> Inl e
           | Inr filter_name \<Rightarrow>
               ingest_loop load_json_output get_filter_name_from_job
                 (AList.update filter_name job jobs) files))"

definition ingest_data ::
  "(string \<Rightarrow> pyerror + 'job) \<Rightarrow> ('job \<Rightarrow> pyerror + string) \<Rightarrow> string list
     \<Rightarrow> pyerror + (string \<times> 'job) list" where
  "ingest_data load_json_output get_filter_name_from_job filenames =
     ingest_loop load_json_output get_filter_name_from_job [] filenames"

text \<open>
  The invariant of the dictionary that \<open>ingest_data\<close> builds: one binding per key, and
  every job bound under its own filter name.
\<close>

definition keyed :: "('job \<Rightarrow> pyerror + string) \<Rightarrow> (string \<times> 'job) list \<Rightarrow> bool" where
  "keyed getf jobs = (distinct (map fst jobs) \<and> (\<forall>(k, j) \<in> set jobs. getf j = Inr k))"

subsection \<open>\<^verbatim>\<open>objects_to_table\<close>\<close>

text \<open>
  The measurements of a job are \<^verbatim>\<open>lsst.validate.base\<close> objects: a measurement has a
  specification-level tag \<^verbatim>\<open>spec_name\<close> (or \<^verbatim>\<open>None\<close>), a metric, a quantity (or
  \<^verbatim>\<open>None\<close>) and a unit; a metric has a name, an operator string and the method
  \<^verbatim>\<open>get_spec(level, filter_name=...)\<close>, which returns a specification or raises.
\<close>

record metric_spec =
  spec_quantity :: squantity

record metric_def =
  name :: string
  operator_str :: string
  get_spec :: "string \<Rightarrow> string \<Rightarrow> pyerror + metric_spec"

record report_measurement =
  spec_name :: "string option"
  meas_metric :: metric_def
  meas_quantity :: "squantity option"
  meas_unit :: pyval

record job =
  measurements :: "report_measurement list"

type_synonym row = "pyval list"

text \<open>
  A table is kept as what its constructor is given: the column names and the rows, each
  row holding its cells as they were passed in. astropy stores the cells by typed
  column (a column that mixes floats with strings is stored as strings); that storage
  is not modelled, so \<open>table_rows\<close> is the list of rows handed over.
\<close>

record table =
  colnames :: "string list"
  table_rows :: "row list"

definition Table :: "row list \<Rightarrow> string list \<Rightarrow> table" where
  "Table rs names = \<lparr>colnames = names, table_rows = rs\<rparr>"

definition add_column :: "table \<Rightarrow> pyval list \<Rightarrow> string \<Rightarrow> table" where
  "add_column t col nm =
     \<lparr>colnames = colnames t @ [nm], table_rows = map (\<lambda>(r, c). r @ [c]) (zip (table_rows t) col)\<rparr>"

text \<open>
  \<^verbatim>\<open>
  def objects_to_table(input_objects, level='design'):
      rows = []
      for filter_name, obj in input_objects.items():
          for meas in obj.measurements:
              if meas.spec_name is not None and meas.spec_name != level:
                  continue
              m = meas.metric
              spec = m.get_spec(level, filter_name=filter_name)
              if meas.quantity is None:
                  meas_quantity_value = "--"
              else:
                  meas_quantity_value = meas.quantity.value
              this_row = [m.name, filter_name, meas_quantity_value, meas.unit,
                          m.operator_str, spec.quantity.value]
              rows.append(this_row)
      srd_requirement_col_name = 'SRD Requirement: %s' % level
      col_names = ('Metric', 'Filter', 'Value', 'Unit',
                   'Operator', srd_requirement_col_name)
      output = Table(rows=rows, names=col_names)
      output.add_column(Column(['']*len(output), dtype=str, name='Comments'))
      return output
  \<close>
  \<open>this_row\<close> is the row built from a measurement once its specification is found;
  \<open>meas_loop\<close> is the inner loop and \<open>items_loop\<close> the outer one, both threading
  \<^verbatim>\<open>rows\<close>.
\<close>

definition this_row :: "string \<Rightarrow> report_measurement \<Rightarrow> metric_spec \<Rightarrow> row" where
  "this_row filter_name meas spec =
     (let m = meas_metric meas;
          meas_quantity_value =
            (case meas_quantity meas of
               None \<Rightarrow> PStr ''--''
             | Some q \<Rightarrow> PFloat (svalue q))
      in [PStr (name m), PStr filter_name, meas_quantity_value, meas_unit meas,
          PStr (operator_str m), PFloat (svalue (spec_quantity spec))])"

fun meas_loop :: "string \<Rightarrow> string \<Rightarrow> row list \<Rightarrow> report_measurement list \<Rightarrow> pyerror + row list" where
  "meas_loop level filter_name rs [] = Inr rs"
| "meas_loop level filter_name rs (meas # rest) =
     (if spec_name meas \<noteq> None \<and> spec_name meas \<noteq> Some level
      then meas_loop level filter_name rs rest
      else
        (case get_spec (meas_metric meas) level filter_name of
           Inl e \<Rightarrow> Inl e
         | Inr spec \<Rightarrow> meas_loop level filter_name (rs @ [this_row filter_name meas spec]) rest))"

fun items_loop :: "string \<Rightarrow> row list \<Rightarrow> (string \<times> job) list \<Rightarrow> pyerror + row list" where
  "items_loop level rs [] = Inr rs"
| "items_loop level rs ((filter_name, obj) # rest) =
     (case meas_loop level filter_name rs (measurements obj) of
        Inl e \<Rightarrow> Inl e
      | Inr rs' \<Rightarrow> items_loop level rs' rest)"

text \<open>
  \<open>built_rows\<close> is the list \<^verbatim>\<open>rows\<close> when the two loops have run, or the exception
  raised on the way: the rows the function builds, before they are passed to
  \<^verbatim>\<open>Table\<close>.
\<close>

definition built_rows :: "(string \<times> job) list \<Rightarrow> string \<Rightarrow> pyerror + row list" where
  "built_rows input_objects level = items_loop level [] input_objects"

definition objects_to_table :: "(string \<times> job) list \<Rightarrow> string \<Rightarrow> pyerror + table" where
  "objects_to_table input_objects level =
     (case built_rows input_objects level of
        Inl e \<Rightarrow> Inl e
      | Inr rs \<Rightarrow>
          (let srd_requirement_col_name = ''SRD Requirement: '' @ level;
               col_names = [''Metric'', ''Filter'', ''Value'', ''Unit'',
                            ''Operator'', srd_requirement_col_name];
               output = Table rs col_names
           in Inr (add_column output (replicate (length (table_rows output)) (PStr ''''))
                     ''Comments'')))"

text \<open>
  For stating the properties: the measurements of all jobs in iteration order, each with
  the filter name of its job; whether a measurement is tabulated at a level; and the
  table row of a tabulated measurement.
\<close>

definition all_measurements :: "(string \<times> job) list \<Rightarrow> (string \<times> report_measurement) list" where
  "all_measurements input_objects =
     concat (map (\<lambda>(filter_name, obj). map (Pair filter_name) (measurements obj)) input_objects)"

definition tabulated :: "string \<Rightarrow> string \<times> report_measurement \<Rightarrow> bool" where
  "tabulated level fm = (spec_name (snd fm) = None \<or> spec_name (snd fm) = Some level)"

definition has_spec :: "string \<Rightarrow> string \<times> report_measurement \<Rightarrow> bool" where
  "has_spec level fm = (\<not> isl (get_spec (meas_metric (snd fm)) level (fst fm)))"

definition row_of :: "string \<Rightarrow> string \<times> report_measurement \<Rightarrow> row" where
  "row_of level fm =
     this_row (fst fm) (snd fm) (projr (get_spec (meas_metric (snd fm)) level (fst fm)))
       @ [PStr '''']"

subsection \<open>\<^verbatim>\<open>float_or_dash\<close>\<close>

text \<open>
  Python's \<^verbatim>\<open>float(f)\<close> on the values above. \<^verbatim>\<open>None\<close> and objects without a float
  conversion raise \<^verbatim>\<open>TypeError\<close>; an integer too large for a double raises
  \<^verbatim>\<open>OverflowError\<close>; a string is stripped of surrounding white space (space, tab, newline,
  vertical tab, form feed, carriage return) and must then be
  an optional sign followed by \<^verbatim>\<open>inf\<close>, \<^verbatim>\<open>infinity\<close> or \<^verbatim>\<open>nan\<close> (in any case) or by
  a decimal number: digits with an optional point and an optional exponent, at least
  one digit in the mantissa, a single underscore allowed between two digits. Anything
  else raises \<^verbatim>\<open>ValueError\<close>. Strings are ASCII; a decimal number beyond the range of a
  double becomes an infinity.
\<close>

definition is_digit :: "char \<Rightarrow> bool" where
  "is_digit c = (c \<in> set ''0123456789'')"

definition digit_val :: "char \<Rightarrow> nat" where
  "digit_val c = of_char c - 48"

definition is_space :: "char \<Rightarrow> bool" where
  "is_space c = (c \<in> set [CHR '' '', CHR 0x09, CHR 0x0A, CHR 0x0B, CHR 0x0C, CHR 0x0D])"

definition strip :: "string \<Rightarrow> string" where
  "strip s = rev (dropWhile is_space (rev (dropWhile is_space s)))"

definition lower :: "char \<Rightarrow> char" where
  "lower c =
     (let n = of_char c :: nat in if 65 \<le> n \<and> n \<le> 90 then char_of (n + 32) else c)"

text \<open>
  The longest prefix that is a digit part (digits, single underscores between digits),
  with the underscores removed, and the rest of the string.
\<close>

fun digits_from :: "string \<Rightarrow> string \<times> string" where
  "digits_from (c # u # d # cs) =
     (if is_digit c then
        (if u = CHR ''_'' \<and> is_digit d then apfst ((#) c) (digits_from (d # cs))
         else apfst ((#) c) (digits_from (u # d # cs)))
      else ([], c # u # d # cs))"
| "digits_from (c # cs) =
     (if is_digit c then apfst ((#) c) (digits_from cs) else ([], c # cs))"
| "digits_from [] = ([], [])"

definition nat_of_digits :: "string \<Rightarrow> nat" where
  "nat_of_digits ds = foldl (\<lambda>n c. 10 * n + digit_val c) 0 ds"

definition split_sign :: "string \<Rightarrow> bool \<times> string" where
  "split_sign s =
     (case s of
        [] \<Rightarrow> (False, [])
      | c # cs \<Rightarrow> if c = CHR ''-'' then (True, cs) else if c = CHR ''+'' then (False, cs)
                  else (False, s))"

definition parse_exponent :: "string \<Rightarrow> int option" where
  "parse_exponent s =
     (case s of
        [] \<Rightarrow> Some 0
      | c # cs \<Rightarrow>
          if c = CHR ''e'' \<or> c = CHR ''E'' then
            (let (neg, cs') = split_sign cs; (ds, r) = digits_from cs'
             in if ds \<noteq> [] \<and> r = []
                then Some (if neg then - int (nat_of_digits ds) else int (nat_of_digits ds))
                else None)
          else None)"

definition parse_decimal :: "string \<Rightarrow> real option" where
  "parse_decimal s =
     (let (ip, r1) = digits_from s;
          (fp, r2) = (case r1 of
                        [] \<Rightarrow> ([], [])
                      | c # cs \<Rightarrow> if c = CHR ''.'' then digits_from cs else ([], r1))
      in if ip = [] \<and> fp = [] then None
         else (case parse_exponent r2 of
                 None \<Rightarrow> None
               | Some e \<Rightarrow>
                   (let k = e - int (length fp); m = real (nat_of_digits (ip @ fp))
                    in Some (if 0 \<le> k then m * 10 ^ nat k else m / 10 ^ nat (- k)))))"

text \<open>
  The least magnitude that rounds beyond the largest double: half an ulp above it.
\<close>

definition double_limit :: int where
  "double_limit = 2 ^ 1024 - 2 ^ 970"

definition to_double :: "real \<Rightarrow> pyfloat" where
  "to_double x =
     (if real_of_int double_limit \<le> \<bar>x\<bar> then (if 0 < x then PInf else NInf) else Fin x)"

definition float_of_str :: "string \<Rightarrow> pyerror + pyfloat" where
  "float_of_str s =
     (let (neg, u) = split_sign (strip s); l = map lower u
      in if l = ''inf'' \<or> l = ''infinity'' then Inr (if neg then NInf else PInf)
         else if l = ''nan'' then Inr NaN
         else (case parse_decimal u of
                 None \<Rightarrow> Inl ValueError
               | Some x \<Rightarrow> Inr (to_double (if neg then - x else x))))"

fun py_float :: "pyval \<Rightarrow> pyerror + pyfloat" where
  "py_float PNone = Inl TypeError"
| "py_float (PBool b) = Inr (Fin (if b then 1 else 0))"
| "py_float (PInt n) =
     (if double_limit \<le> \<bar>n\<bar> then Inl OverflowError else Inr (Fin (real_of_int n)))"
| "py_float (PFloat x) = Inr x"
| "py_float (PStr s) = float_of_str s"
| "py_float PObj = Inl TypeError"

text \<open>
  \<^verbatim>\<open>'{:.2f}'.format(x)\<close>: the magnitude is rounded to the nearest hundredth, a tie going
  to the even one, and written with its integer part, a point and two digits; a
  negative value keeps its sign even when it rounds to zero.
\<close>

definition digit_char :: "nat \<Rightarrow> char" where
  "digit_char n = ''0123456789'' ! n"

fun show_nat :: "nat \<Rightarrow> string" where
  "show_nat n = (if n < 10 then [digit_char n] else show_nat (n div 10) @ [digit_char (n mod 10)])"

declare show_nat.simps [simp del]

definition round_half_even :: "real \<Rightarrow> nat" where
  "round_half_even y =
     (let f = \<lfloor>y\<rfloor>; d = y - real_of_int f
      in nat (if d < 1 / 2 then f else if 1 / 2 < d then f + 1
              else if even f then f else f + 1))"

definition hundredths :: "nat \<Rightarrow> string" where
  "hundredths r = show_nat (r div 100) @ ''.'' @ [digit_char (r mod 100 div 10), digit_char (r mod 10)]"

fun format_2f :: "pyfloat \<Rightarrow> string" where
  "format_2f NaN = ''nan''"
| "format_2f PInf = ''inf''"
| "format_2f NInf = ''-inf''"
| "format_2f (Fin x) = (if x < 0 then ''-'' else '''') @ hundredths (round_half_even (\<bar>x\<bar> * 100))"

text \<open>
  \<^verbatim>\<open>
  def float_or_dash(f, format_string='{:.2f}'):
      try:
          return format_string.format(float(f))
      except:
          return '--'
  \<close>
  \<open>format\<close> stands for \<^verbatim>\<open>format_string.format\<close>, which returns the text or raises;
  \<open>float_or_dash_default\<close> is the call with the default format string.
\<close>

definition float_or_dash :: "pyval \<Rightarrow> (pyfloat \<Rightarrow> pyerror + string) \<Rightarrow> string" where
  "float_or_dash f format =
     (case py_float f of
        Inl e \<Rightarrow> ''--''
      | Inr x \<Rightarrow> (case format x of Inl e \<Rightarrow> ''--'' | Inr s \<Rightarrow> s))"

definition float_or_dash_default :: "pyval \<Rightarrow> string" where
  "float_or_dash_default f = float_or_dash f (\<lambda>x. Inr (format_2f x))"

section \<open>Example inputs\<close>

definition mas :: "real \<Rightarrow> squantity" where
  "mas x = \<lparr>svalue = Fin x, sunit = ''mas''\<rparr>"

definition rms_datum :: "real list \<Rightarrow> datum" where
  "rms_datum xs = \<lparr>datum_quantity = \<lparr>qvalue = Array1 (map Fin xs), unit = ''mas''\<rparr>,
                   description = ''rms of distance repeatability''\<rparr>"

definition amx_example :: measurement where
  "amx_example = Measurement ''AM1'' (mas 5)
                   (Map.empty(''rmsDistMas'' \<mapsto> rms_datum [3, 4, 5, 6, 7, 8, 9, 10]))"

definition adx_example :: threshold_spec where
  "adx_example = \<lparr>threshold = mas 2,
                   datum = \<lparr>datum_quantity = \<lparr>qvalue = Scalar (Fin 2), unit = ''mas''\<rparr>,
                            description = ''AD1 design''\<rparr>\<rparr>"

definition amx_nan :: measurement where
  "amx_nan = Measurement ''AM1'' \<lparr>svalue = NaN, sunit = ''mas''\<rparr> Map.empty"

definition other_datum :: datum where
  "other_datum = \<lparr>datum_quantity = \<lparr>qvalue = Scalar (Fin 40), unit = ''mas''\<rparr>,
                   description = ''AD1 minimum''\<rparr>"

definition amx_with_adx :: measurement where
  "amx_with_adx = Measurement ''AM1'' (mas 5)
                    (Map.empty(''rmsDistMas'' \<mapsto> rms_datum [3, 4], ''ADx'' \<mapsto> other_datum))"

definition store_example :: store where
  "store_example =
     [DictObj (Map.empty(''rmsDistMas'' \<mapsto> rms_datum [3, 4, 5, 6, 7, 8, 9, 10])),
      MeasObj ''AM1'' (mas 5) 0]"

definition magdiff_datum :: "real list list \<Rightarrow> datum" where
  "magdiff_datum rows = \<lparr>datum_quantity = \<lparr>qvalue = Array2 (map (map Fin) rows), unit = ''mmag''\<rparr>,
                          description = ''Difference magnitudes''\<rparr>"

definition pa1_example :: measurement where
  "pa1_example = Measurement ''PA1'' \<lparr>svalue = Fin 3, sunit = ''mmag''\<rparr>
     (Map.empty(''magDiff'' \<mapsto> magdiff_datum
        [[0.5, - 0.1, 0.9, - 0.3, 1.0, 0.2, - 0.7, 0.4, - 0.8, 0.6],
         [1, 2, 3, 4, 5, 6, 7, 8, 9, 10]]))"

definition pa1_example' :: measurement where
  "pa1_example' = Measurement ''PA1'' \<lparr>svalue = Fin 3, sunit = ''mmag''\<rparr>
     (Map.empty(''magDiff'' \<mapsto> magdiff_datum
        [[0.5, - 0.1, 0.9, - 0.3, 1.0, 0.2, - 0.7, 0.4, - 0.8, 0.6],
         [0, 0, 0, 0, 0, 0, 0, 0, 0, 0],
         [- 20, 30, 40, 50, 60, 70, 80, 90, 100, 110]]))"

definition pf1_example :: squantity where
  "pf1_example = \<lparr>svalue = Fin 20, sunit = ''percent''\<rparr>"

definition am1_metric :: metric_def where
  "am1_metric = \<lparr>name = ''AM1'', operator_str = ''<='',
     get_spec = (\<lambda>level filter_name.
        if level = ''design'' then Inr \<lparr>spec_quantity = mas 10\<rparr>
        else if level = ''minimum'' then Inr \<lparr>spec_quantity = mas 20\<rparr>
        else Inl KeyError)\<rparr>"

definition meas_design :: report_measurement where
  "meas_design = \<lparr>spec_name = Some ''design'', meas_metric = am1_metric,
     meas_quantity = Some (mas 7), meas_unit = PStr ''mas''\<rparr>"

definition meas_minimum :: report_measurement where
  "meas_minimum = \<lparr>spec_name = Some ''minimum'', meas_metric = am1_metric,
     meas_quantity = Some (mas 7), meas_unit = PStr ''mas''\<rparr>"

definition meas_untagged :: report_measurement where
  "meas_untagged = \<lparr>spec_name = None, meas_metric = am1_metric,
     meas_quantity = None, meas_unit = PNone\<rparr>"

definition meas_nan :: report_measurement where
  "meas_nan = \<lparr>spec_name = None, meas_metric = am1_metric,
     meas_quantity = Some \<lparr>svalue = NaN, sunit = ''mas''\<rparr>, meas_unit = PStr ''mas''\<rparr>"

definition jobs_example :: "(string \<times> job) list" where
  "jobs_example = [(''r'', \<lparr>measurements = [meas_design, meas_minimum, meas_untagged]\<rparr>)]"

definition jobs_nan :: "(string \<times> job) list" where
  "jobs_nan = [(''r'', \<lparr>measurements = [meas_nan]\<rparr>)]"

text \<open>Three report files; the first and the last hold a job for the same filter.\<close>

definition load_example :: "string \<Rightarrow> pyerror + string \<times> nat" where
  "load_example file =
     (if file = ''a.json'' then Inr (''r'', 1)
      else if file = ''b.json'' then Inr (''i'', 2)
      else if file = ''c.json'' then Inr (''r'', 3)
      else Inl OtherError)"

definition filter_example :: "string \<times> nat \<Rightarrow> pyerror + string" where
  "filter_example job = Inr (fst job)"

section \<open>Properties of AFx\<close>

lemma sum_list_indicator:
  "sum_list (map (\<lambda>x. if P x then (1::real) else 0) xs) = real (length (filter P xs))"
  by (induction xs) auto

lemma np_mean_fraction:
  "xs \<noteq> [] \<Longrightarrow> np_mean (map P xs) = Fin (real (length (filter P xs)) / real (length xs))"
  by (simp add: np_mean_def comp_def sum_list_indicator)

lemma np_mean_empty: "np_mean [] = NaN"
  by (simp add: np_mean_def)

text \<open>
  C1. When the AMx quantity is not NaN and the AMx extras hold \<^verbatim>\<open>rmsDistMas\<close>,
  \<open>measureAFx\<close> returns a measurement in percent whose value is 100 times the fraction
  of the \<^verbatim>\<open>rmsDistMas\<close> entries that are strictly greater than the AMx quantity plus
  the ADx threshold. (An empty array has no fraction; its mean, and the result, is NaN.)
\<close>

theorem measureAFx_fraction:
  assumes "\<not> np_isnan (svalue (quantity amx))"
    and "extras amx ''rmsDistMas'' = Some d"
  shows "\<exists>m. measureAFx metric' amx adx adx_spec = Inr m
           \<and> sunit (quantity m) = ''percent''
           \<and> svalue (quantity m) =
               (let rmsDistMas = elems (qvalue (datum_quantity d));
                    limit = fadd (svalue (quantity amx)) (svalue (threshold adx_spec))
                in if rmsDistMas = [] then NaN
                   else Fin (100 * (real (length (filter (\<lambda>x. fgt x limit) rmsDistMas))
                                     / real (length rmsDistMas))))"
  using assms
  by (simp add: measureAFx_def afx_quantity_def Measurement_def Let_def
      np_mean_fraction np_mean_empty)

theorem measureAFx_fraction_witness:
  "\<exists>m. measureAFx ''AF1'' amx_example adx_example adx_example = Inr m
       \<and> quantity m = \<lparr>svalue = Fin 37.5, sunit = ''percent''\<rparr>"
proof -
  have nn: "\<not> np_isnan (svalue (quantity amx_example))"
    by (simp add: amx_example_def Measurement_def mas_def)
  have ex: "extras amx_example ''rmsDistMas'' = Some (rms_datum [3, 4, 5, 6, 7, 8, 9, 10])"
    by (simp add: amx_example_def Measurement_def)
  from measureAFx_fraction [OF nn ex, of "''AF1''" adx_example adx_example]
  obtain m where m: "measureAFx ''AF1'' amx_example adx_example adx_example = Inr m"
    and u: "sunit (quantity m) = ''percent''"
    and v: "svalue (quantity m) =
      (let rmsDistMas = elems (qvalue (datum_quantity (rms_datum [3, 4, 5, 6, 7, 8, 9, 10])));
           limit = fadd (svalue (quantity amx_example)) (svalue (threshold adx_example))
       in if rmsDistMas = [] then NaN
          else Fin (100 * (real (length (filter (\<lambda>x. fgt x limit) rmsDistMas))
                            / real (length rmsDistMas))))"
    by blast
  from v have "svalue (quantity m) = Fin 37.5"
    by (simp add: rms_datum_def amx_example_def adx_example_def Measurement_def mas_def)
  with u have "quantity m = \<lparr>svalue = Fin 37.5, sunit = ''percent''\<rparr>"
    by (cases "quantity m") simp
  with m show ?thesis by blast
qed

text \<open>
  C2. When the AMx quantity is NaN, \<open>measureAFx\<close> returns (it raises nothing, whatever
  the extras hold, even without \<^verbatim>\<open>rmsDistMas\<close>) a measurement whose quantity is NaN
  percent.
\<close>

theorem measureAFx_nan:
  assumes "np_isnan (svalue (quantity amx))"
  shows "\<exists>m. measureAFx metric' amx adx adx_spec = Inr m
           \<and> quantity m = \<lparr>svalue = NaN, sunit = ''percent''\<rparr>"
  using assms by (simp add: measureAFx_def afx_quantity_def Measurement_def)

theorem measureAFx_nan_witness:
  "np_isnan (svalue (quantity amx_nan))
   \<and> (\<exists>m. measureAFx ''AF1'' amx_nan adx_example adx_example = Inr m
          \<and> quantity m = \<lparr>svalue = NaN, sunit = ''percent''\<rparr>)"
proof -
  have h: "np_isnan (svalue (quantity amx_nan))"
    by (simp add: amx_nan_def Measurement_def)
  from measureAFx_nan [OF h, of "''AF1''" adx_example adx_example] h show ?thesis by simp
qed

text \<open>
  C5 as stated fails when the AMx extras themselves hold an entry under \<^verbatim>\<open>'ADx'\<close>:
  \<^verbatim>\<open>datums.update(amx.extras)\<close> runs after \<^verbatim>\<open>datums['ADx'] = adx.datum\<close> and
  overwrites it.
\<close>

theorem measureAFx_extras_counterexample:
  "\<not> isl (measureAFx ''AF1'' amx_with_adx adx_example adx_example)
   \<and> extras (projr (measureAFx ''AF1'' amx_with_adx adx_example adx_example)) ''ADx''
       = Some other_datum
   \<and> Some other_datum \<noteq> Some (datum adx_example)"
  by (simp add: measureAFx_def afx_quantity_def Measurement_def amx_with_adx_def mas_def
      rms_datum_def adx_example_def other_datum_def map_add_def)

text \<open>
  C5 (amended). The measurement returned by \<open>measureAFx\<close> holds every key-value pair of
  the AMx extras; its keys are those of the AMx extras and \<^verbatim>\<open>'ADx'\<close>; and it records
  the ADx datum under \<^verbatim>\<open>'ADx'\<close> whenever the AMx extras have no entry under that key.
\<close>

theorem measureAFx_extras:
  assumes "measureAFx metric' amx adx adx_spec = Inr m"
  shows "(\<forall>k v. extras amx k = Some v \<longrightarrow> extras m k = Some v)
         \<and> dom (extras m) = insert ''ADx'' (dom (extras amx))
         \<and> (extras amx ''ADx'' = None \<longrightarrow> extras m ''ADx'' = Some (datum adx))"
proof -
  from assms have ex: "extras m = (Map.empty(''ADx'' \<mapsto> datum adx)) ++ extras amx"
    by (auto simp: measureAFx_def Measurement_def split: sum.splits)
  show ?thesis
    unfolding ex by (auto simp: map_add_def split: option.splits)
qed

theorem measureAFx_extras_witness:
  "\<exists>m. measureAFx ''AF1'' amx_example adx_example adx_example = Inr m
       \<and> extras m ''rmsDistMas'' = Some (rms_datum [3, 4, 5, 6, 7, 8, 9, 10])
       \<and> dom (extras m) = {''ADx'', ''rmsDistMas''}
       \<and> extras m ''ADx'' = Some (datum adx_example)"
proof -
  obtain m where m: "measureAFx ''AF1'' amx_example adx_example adx_example = Inr m"
    by (simp add: measureAFx_def afx_quantity_def Measurement_def amx_example_def mas_def)
  have e: "extras amx_example ''rmsDistMas'' = Some (rms_datum [3, 4, 5, 6, 7, 8, 9, 10])"
    and n: "extras amx_example ''ADx'' = None"
    and d: "dom (extras amx_example) = {''rmsDistMas''}"
    by (simp_all add: amx_example_def Measurement_def)
  from measureAFx_extras [OF m] e n d m show ?thesis by auto
qed

subsection \<open>The frame of \<open>measureAFx\<close>\<close>

lemma lookup_Some_less: "lookup s a = Some ob \<Longrightarrow> a < length s"
  by (simp add: lookup_def split: if_splits)

lemma lookup_snoc_old: "lookup s a = Some ob \<Longrightarrow> lookup (s @ t) a = Some ob"
  by (simp add: lookup_def nth_append split: if_splits)

lemma lookup_snoc_new: "lookup (s @ ob # t) (length s) = Some ob"
  by (simp add: lookup_def)

lemma measureAFx_st_steps:
  assumes 1: "lookup s amx = Some (MeasObj m q e)" and 2: "lookup s e = Some (DictObj ex)"
  shows "measureAFx_st metric' amx adx adx_spec s =
           (case afx_quantity q ex adx_spec of
              Inl err \<Rightarrow> (Inl err, s @ [DictObj (Map.empty(''ADx'' \<mapsto> datum adx))])
            | Inr quantity' \<Rightarrow>
                (Inr (Suc (length s)),
                 s @ [DictObj (Map.empty(''ADx'' \<mapsto> datum adx) ++ ex),
                      MeasObj metric' quantity' (length s)]))"
proof -
  let ?d = "DictObj (Map.empty(''ADx'' \<mapsto> datum adx))"
  have s2: "dict_setitem (s @ [DictObj Map.empty]) (length s) ''ADx'' (datum adx) = s @ [?d]"
    by (simp add: dict_setitem_def lookup_snoc_new)
  have s3: "dict_update (s @ [?d]) (length s) ex
              = s @ [DictObj (Map.empty(''ADx'' \<mapsto> datum adx) ++ ex)]"
    by (simp add: dict_update_def lookup_snoc_new)
  show ?thesis
    by (simp add: measureAFx_st_def alloc_def s2 s3 lookup_snoc_old [OF 1] lookup_snoc_old [OF 2]
        split: sum.splits)
qed

lemma measureAFx_st_frame:
  "measureAFx_st metric' amx adx adx_spec s = (res, s')
   \<Longrightarrow> length s \<le> length s' \<and> take (length s) s' = s"
  by (auto simp: measureAFx_st_def alloc_def dict_setitem_def dict_update_def lookup_def
      Let_def nth_append split: option.splits obj.splits if_splits sum.splits)


lemma meas_at_frame:
  assumes "meas_at s a = Some A" and "length s \<le> length s'" and "take (length s) s' = s"
  shows "meas_at s' a = Some A"
proof -
  have eq: "lookup s' b = lookup s b" if "b < length s" for b
  proof -
    from that assms(2) have "s' ! b = take (length s) s' ! b" by simp
    with that assms(2,3) show ?thesis by (simp add: lookup_def)
  qed
  from assms(1) obtain m q e ex where
    1: "lookup s a = Some (MeasObj m q e)" and 2: "lookup s e = Some (DictObj ex)"
    by (auto simp: meas_at_def split: option.splits obj.splits)
  from 1 2 have "a < length s" "e < length s" by (auto dest: lookup_Some_less)
  with eq 1 2 assms(1) show ?thesis by (simp add: meas_at_def)
qed

lemma meas_at_cases:
  assumes "meas_at s a = Some A"
  obtains e where "lookup s a = Some (MeasObj (metric A) (quantity A) e)"
    and "lookup s e = Some (DictObj (extras A))"
  using assms by (auto simp: meas_at_def split: option.splits obj.splits)

text \<open>The store version computes the measurement that \<open>measureAFx\<close> returns.\<close>

lemma measureAFx_st_refines:
  assumes "meas_at s amx = Some A"
    and "measureAFx_st metric' amx adx adx_spec s = (res, s')"
  shows "case measureAFx metric' A adx adx_spec of
           Inl e \<Rightarrow> res = Inl e
         | Inr M \<Rightarrow> \<exists>r. res = Inr r \<and> length s \<le> r \<and> meas_at s' r = Some M"
proof -
  from assms(1) obtain e where
    1: "lookup s amx = Some (MeasObj (metric A) (quantity A) e)"
    and 2: "lookup s e = Some (DictObj (extras A))"
    by (rule meas_at_cases)
  show ?thesis
  proof (cases "afx_quantity (quantity A) (extras A) adx_spec")
    case (Inl err)
    with assms(2) show ?thesis
      by (simp add: measureAFx_st_steps [OF 1 2] measureAFx_def)
  next
    case (Inr q')
    with assms(2) have res: "res = Inr (Suc (length s))"
      and s': "s' = s @ [DictObj (Map.empty(''ADx'' \<mapsto> datum adx) ++ extras A),
                         MeasObj metric' q' (length s)]"
      by (simp_all add: measureAFx_st_steps [OF 1 2])
    have "meas_at s' (Suc (length s))
            = Some (Measurement metric' q' (Map.empty(''ADx'' \<mapsto> datum adx) ++ extras A))"
      by (simp add: s' meas_at_def lookup_def nth_append Measurement_def)
    with Inr res show ?thesis by (simp add: measureAFx_def)
  qed
qed

text \<open>
  C10. \<open>measureAFx\<close> leaves its AMx argument as it was: every object allocated before
  the call, the AMx measurement and its extras dictionary among them, is unchanged
  after it, whether the call returns or raises; the measurement it returns is a new
  object with a new extras dictionary, distinct from the AMx one.
\<close>

theorem measureAFx_st_leaves_amx:
  assumes "meas_at s amx = Some A"
    and "measureAFx_st metric' amx adx adx_spec s = (res, s')"
  shows "take (length s) s' = s
         \<and> meas_at s' amx = Some A
         \<and> (\<forall>r. res = Inr r \<longrightarrow>
               length s \<le> r \<and> r \<noteq> amx
               \<and> (\<exists>m q e. lookup s' r = Some (MeasObj m q e) \<and> length s \<le> e
                          \<and> (\<forall>m0 q0 e0. lookup s amx = Some (MeasObj m0 q0 e0) \<longrightarrow> e \<noteq> e0)))"
proof -
  from measureAFx_st_frame [OF assms(2)]
  have fr: "length s \<le> length s'" "take (length s) s' = s" by simp_all
  from meas_at_frame [OF assms(1) fr] have keep: "meas_at s' amx = Some A" .
  from assms(1) obtain e0 where
    1: "lookup s amx = Some (MeasObj (metric A) (quantity A) e0)"
    and 2: "lookup s e0 = Some (DictObj (extras A))"
    by (rule meas_at_cases)
  from 1 2 have lt: "amx < length s" "e0 < length s" by (auto dest: lookup_Some_less)
  have new: "length s \<le> r \<and> r \<noteq> amx
      \<and> (\<exists>m q e. lookup s' r = Some (MeasObj m q e) \<and> length s \<le> e
                 \<and> (\<forall>m0 q0 e0. lookup s amx = Some (MeasObj m0 q0 e0) \<longrightarrow> e \<noteq> e0))"
    if r: "res = Inr r" for r
  proof (cases "afx_quantity (quantity A) (extras A) adx_spec")
    case (Inl err)
    with assms(2) r show ?thesis by (simp add: measureAFx_st_steps [OF 1 2])
  next
    case (Inr q')
    with assms(2) r have rr: "r = Suc (length s)"
      and s': "s' = s @ [DictObj (Map.empty(''ADx'' \<mapsto> datum adx) ++ extras A),
                         MeasObj metric' q' (length s)]"
      by (auto simp: measureAFx_st_steps [OF 1 2])
    have "lookup s' r = Some (MeasObj metric' q' (length s))"
      by (simp add: s' rr lookup_def nth_append)
    with lt 1 rr show ?thesis by auto
  qed
  from fr keep new show ?thesis by blast
qed

theorem measureAFx_st_leaves_amx_witness:
  "meas_at store_example 1 = Some amx_example
   \<and> (\<exists>s'. measureAFx_st ''AF1'' 1 adx_example adx_example store_example = (Inr 3, s')
          \<and> take (length store_example) s' = store_example
          \<and> meas_at s' 1 = Some amx_example
          \<and> (\<exists>m q. lookup s' 3 = Some (MeasObj m q 2)))"
proof -
  have h: "meas_at store_example 1 = Some amx_example"
    by (simp add: meas_at_def store_example_def lookup_def amx_example_def Measurement_def)
  have 1: "lookup store_example 1 = Some (MeasObj ''AM1'' (mas 5) 0)"
    and 2: "lookup store_example 0
              = Some (DictObj (Map.empty(''rmsDistMas'' \<mapsto> rms_datum [3, 4, 5, 6, 7, 8, 9, 10])))"
    by (simp_all add: store_example_def lookup_def)
  have q: "afx_quantity (mas 5)
             (Map.empty(''rmsDistMas'' \<mapsto> rms_datum [3, 4, 5, 6, 7, 8, 9, 10])) adx_example
           = Inr \<lparr>svalue = Fin 37.5, sunit = ''percent''\<rparr>"
    by (simp add: afx_quantity_def mas_def rms_datum_def adx_example_def np_mean_def)
  have len: "length store_example = 2" by (simp add: store_example_def)
  define s' where "s' = store_example @
      [DictObj (Map.empty(''ADx'' \<mapsto> datum adx_example)
                ++ Map.empty(''rmsDistMas'' \<mapsto> rms_datum [3, 4, 5, 6, 7, 8, 9, 10])),
       MeasObj ''AF1'' \<lparr>svalue = Fin 37.5, sunit = ''percent''\<rparr> 2]"
  have r: "measureAFx_st ''AF1'' 1 adx_example adx_example store_example = (Inr 3, s')"
    by (subst measureAFx_st_steps [OF 1 2]) (simp add: q len s'_def)
  have l: "\<exists>m q. lookup s' 3 = Some (MeasObj m q 2)"
    by (simp add: s'_def lookup_def len nth_append)
  from measureAFx_st_leaves_amx [OF h r] h r l show ?thesis by blast
qed

section \<open>Properties of PA2\<close>

lemma finsort_Fin: "finsort (Fin x) (map Fin ys) = map Fin (insort x ys)"
  by (induction ys) auto

lemma np_sort_Fin: "np_sort (map Fin xs) = map Fin (sort xs)"
  by (induction xs) (simp_all add: np_sort_def finsort_Fin)

lemma lerp_Fin: "lerp (Fin a) (Fin b) t = Fin (a + (b - a) * t)"
  by (simp add: lerp_def fsub_def algebra_simps)

lemma map_fabs_Fin: "map fabs (map Fin xs) = map Fin (map abs xs)"
  by simp

lemma no_nan_Fin: "\<not> list_ex np_isnan (map Fin xs)"
  by (induction xs) simp_all

lemma np_percentile_Fin:
  assumes "xs \<noteq> []" and "0 \<le> q" and "q \<le> 100"
  shows "np_percentile (map Fin xs) (Fin q) = Inr (Fin (linear_percentile xs q))"
proof -
  define n where "n = length xs"
  define h where "h = q / 100 * real (n - 1)"
  define lo where "lo = nat \<lfloor>h\<rfloor>"
  define hi where "hi = min (lo + 1) (n - 1)"
  define s where "s = sort xs"
  from assms(1) have n: "0 < n" by (simp add: n_def)
  from assms(2) have h0: "0 \<le> h" by (simp add: h_def)
  from assms(3) have "q / 100 * real (n - 1) \<le> 1 * real (n - 1)"
    by (intro mult_right_mono) simp_all
  then have h1: "h \<le> real (n - 1)" by (simp add: h_def)
  from h1 have "\<lfloor>h\<rfloor> \<le> int (n - 1)" by (simp add: floor_le_iff)
  with h0 have "lo \<le> n - 1" by (simp add: lo_def)
  with n have "lo < n" by linarith
  then have lo: "lo < length s" by (simp add: n_def s_def)
  from n have "hi < n" unfolding hi_def by linarith
  then have hi: "hi < length s" by (simp add: n_def s_def)
  have "np_percentile (map Fin xs) (Fin q)
          = Inr (lerp (map Fin s ! lo) (map Fin s ! hi) (h - real lo))"
    using assms no_nan_Fin [of xs]
    unfolding np_percentile_def Let_def np_sort_Fin n_def h_def lo_def hi_def s_def
    by simp
  also have "\<dots> = Inr (Fin (s ! lo + (s ! hi - s ! lo) * (h - real lo)))"
    using lo hi by (simp add: lerp_Fin)
  also have "s ! lo + (s ! hi - s ! lo) * (h - real lo) = linear_percentile xs q"
    unfolding linear_percentile_def Let_def n_def h_def lo_def hi_def s_def by simp
  finally show ?thesis .
qed

text \<open>
  C3. Two PA1 measurements whose \<^verbatim>\<open>magDiff\<close> arrays have the same unit and the same
  row 0 give the same \<open>measurePA2\<close> result (the same measurement or the same error),
  whatever their rows 1 and above hold: the output depends on the first trial only.
\<close>

theorem measurePA2_row0_only:
  assumes "extras pa1 ''magDiff'' = Some d"
    and "extras pa1' ''magDiff'' = Some d'"
    and "unit (datum_quantity d) = unit (datum_quantity d')"
    and "qvalue (datum_quantity d) = Array2 (r # rows)"
    and "qvalue (datum_quantity d') = Array2 (r # rows')"
  shows "measurePA2 metric' pa1 pf1_thresh = measurePA2 metric' pa1' pf1_thresh"
  using assms by (simp add: measurePA2_def split: sum.splits)

theorem measurePA2_row0_only_witness:
  "measurePA2 ''PA2'' pa1_example pf1_example = measurePA2 ''PA2'' pa1_example' pf1_example
   \<and> extras pa1_example ''magDiff'' \<noteq> extras pa1_example' ''magDiff''"
proof -
  let ?r = "map Fin [0.5, - 0.1, 0.9, - 0.3, 1.0, 0.2, - 0.7, 0.4, - 0.8, 0.6]"
  let ?d = "magdiff_datum [[0.5, - 0.1, 0.9, - 0.3, 1.0, 0.2, - 0.7, 0.4, - 0.8, 0.6],
         [1, 2, 3, 4, 5, 6, 7, 8, 9, 10]]"
  let ?d' = "magdiff_datum [[0.5, - 0.1, 0.9, - 0.3, 1.0, 0.2, - 0.7, 0.4, - 0.8, 0.6],
         [0, 0, 0, 0, 0, 0, 0, 0, 0, 0],
         [- 20, 30, 40, 50, 60, 70, 80, 90, 100, 110]]"
  have 1: "extras pa1_example ''magDiff'' = Some ?d"
    by (simp add: pa1_example_def Measurement_def)
  have 2: "extras pa1_example' ''magDiff'' = Some ?d'"
    by (simp add: pa1_example'_def Measurement_def)
  have 3: "unit (datum_quantity ?d) = unit (datum_quantity ?d')"
    by (simp add: magdiff_datum_def)
  have 4: "qvalue (datum_quantity ?d) = Array2 (?r # [map Fin [1, 2, 3, 4, 5, 6, 7, 8, 9, 10]])"
    by (simp add: magdiff_datum_def)
  have 5: "qvalue (datum_quantity ?d') = Array2 (?r # [map Fin [0, 0, 0, 0, 0, 0, 0, 0, 0, 0],
              map Fin [- 20, 30, 40, 50, 60, 70, 80, 90, 100, 110]])"
    by (simp add: magdiff_datum_def)
  have 6: "extras pa1_example ''magDiff'' \<noteq> extras pa1_example' ''magDiff''"
    unfolding 1 2 by (simp add: magdiff_datum_def)
  from measurePA2_row0_only [OF 1 2 3 4 5] 6 show ?thesis by simp
qed

text \<open>
  The value of the PA2 result. For a PF1 threshold between 0 and 100 percent and a
  non-empty row 0 of finite values, \<open>measurePA2\<close> returns the (100 - PF1)-th percentile,
  with linear interpolation between order statistics, of the absolute values of row 0;
  its unit is the product of the unit of the \<^verbatim>\<open>magDiff\<close> array with itself.
\<close>

lemma measurePA2_value:
  assumes "extras pa1 ''magDiff'' = Some d"
    and "qvalue (datum_quantity d) = Array2 (map Fin xs # rows)"
    and "xs \<noteq> []"
    and "svalue pf1_thresh = Fin pf1"
    and "0 \<le> pf1" and "pf1 \<le> 100"
  shows "\<exists>m. measurePA2 metric' pa1 pf1_thresh = Inr m
           \<and> svalue (quantity m) = Fin (linear_percentile (map abs xs) (100 - pf1))
           \<and> sunit (quantity m) = unit_mul (unit (datum_quantity d)) (unit (datum_quantity d))"
proof -
  have "np_percentile (map Fin (map abs xs)) (Fin (100 - pf1))
          = Inr (Fin (linear_percentile (map abs xs) (100 - pf1)))"
    using assms(3,5,6) by (intro np_percentile_Fin) simp_all
  with assms(1,2,4) show ?thesis
    by (simp add: measurePA2_def Measurement_def times_unit_def fsub_def comp_def)
qed

text \<open>
  C4. The code evaluated at PF1 = 20 percent and a \<^verbatim>\<open>magDiff\<close> array in \<^verbatim>\<open>mmag\<close> whose
  row 0 has the absolute values 0.1, 0.2, ..., 1.0: \<open>measurePA2\<close> returns 0.82, the
  linearly interpolated 80th percentile, as the claim says; but the unit of the result
  is \<^verbatim>\<open>mmag2\<close>, not the unit \<^verbatim>\<open>mmag\<close> of the array, because the percentile already
  carries the unit when the code multiplies it by \<^verbatim>\<open>magDiffs.unit\<close>.
\<close>

theorem measurePA2_unit_squared:
  "\<not> isl (measurePA2 ''PA2'' pa1_example pf1_example)
   \<and> quantity (projr (measurePA2 ''PA2'' pa1_example pf1_example))
       = \<lparr>svalue = Fin 0.82, sunit = ''mmag2''\<rparr>
   \<and> map_option (unit \<circ> datum_quantity) (extras pa1_example ''magDiff'') = Some ''mmag''"
proof -
  let ?xs = "[0.5, - 0.1, 0.9, - 0.3, 1.0, 0.2, - 0.7, 0.4, - 0.8, 0.6] :: real list"
  let ?d = "magdiff_datum [?xs, [1, 2, 3, 4, 5, 6, 7, 8, 9, 10]]"
  have 1: "extras pa1_example ''magDiff'' = Some ?d"
    by (simp add: pa1_example_def Measurement_def)
  have 2: "qvalue (datum_quantity ?d) = Array2 (map Fin ?xs # [map Fin [1, 2, 3, 4, 5, 6, 7, 8, 9, 10]])"
    by (simp add: magdiff_datum_def)
  have 3: "?xs \<noteq> []" by simp
  have 4: "svalue pf1_example = Fin 20" by (simp add: pf1_example_def)
  have s: "sort (map abs ?xs) = [0.1, 0.2, 0.3, 0.4, 0.5, 0.6, 0.7, 0.8, 0.9, 1.0]"
    by simp
  have h: "\<lfloor>(36::real) / 5\<rfloor> = 7" by (simp add: floor_eq_iff)
  have lp: "linear_percentile (map abs ?xs) (100 - 20) = 0.82"
    unfolding linear_percentile_def s by (simp add: Let_def h)
  have un: "unit (datum_quantity ?d) = ''mmag''" by (simp add: magdiff_datum_def)
  from measurePA2_value [OF 1 2 3 4, of "''PA2''"]
  obtain m where m: "measurePA2 ''PA2'' pa1_example pf1_example = Inr m"
    and v: "svalue (quantity m) = Fin (linear_percentile (map abs ?xs) (100 - 20))"
    and u: "sunit (quantity m) = unit_mul (unit (datum_quantity ?d)) (unit (datum_quantity ?d))"
    by auto
  from u have u': "sunit (quantity m) = ''mmag2''"
    unfolding un by (simp add: unit_mul_def)
  from v have v': "svalue (quantity m) = Fin 0.82"
    unfolding lp .
  from u' v' have q: "quantity m = \<lparr>svalue = Fin 0.82, sunit = ''mmag2''\<rparr>"
    by (cases "quantity m") simp
  have "map_option (unit \<circ> datum_quantity) (extras pa1_example ''magDiff'') = Some ''mmag''"
    unfolding 1 using un by simp
  with m q show ?thesis by simp
qed

section \<open>Properties of the report\<close>

subsection \<open>Ingestion\<close>

lemma keyed_update:
  assumes "keyed getf jobs" and "getf job = Inr k"
  shows "keyed getf (AList.update k job jobs)"
proof -
  have "set (AList.update k job jobs) \<subseteq> insert (k, job) (set jobs)"
    by (induction jobs) auto
  with assms show ?thesis
    by (auto simp: keyed_def distinct_update)
qed

lemma ingest_loop_keyed:
  "ingest_loop load getf acc files = Inr jobs \<Longrightarrow> keyed getf acc \<Longrightarrow> keyed getf jobs"
proof (induction files arbitrary: acc)
  case Nil
  then show ?case by simp
next
  case (Cons fl files)
  then show ?case
    by (auto split: sum.splits intro: keyed_update)
qed

lemma ingest_loop_append:
  "ingest_loop load getf acc (pre @ post) =
     (case ingest_loop load getf acc pre of
        Inl e \<Rightarrow> Inl e
      | Inr acc' \<Rightarrow> ingest_loop load getf acc' post)"
  by (induction pre arbitrary: acc) (auto split: sum.splits)

lemma ingest_loop_returns:
  "\<forall>p \<in> set files. \<exists>j f. load p = Inr j \<and> getf j = Inr f
   \<Longrightarrow> \<exists>jobs. ingest_loop load getf acc files = Inr jobs"
proof (induction files arbitrary: acc)
  case Nil
  then show ?case by simp
next
  case (Cons fl files)
  then obtain j f where "load fl = Inr j" "getf j = Inr f" by auto
  with Cons show ?case by simp
qed

lemma ingest_loop_other_keys:
  "ingest_loop load getf acc files = Inr jobs
   \<Longrightarrow> \<forall>p \<in> set files. \<forall>j. load p = Inr j \<longrightarrow> getf j \<noteq> Inr k
   \<Longrightarrow> map_of jobs k = map_of acc k"
proof (induction files arbitrary: acc)
  case Nil
  then show ?case by simp
next
  case (Cons fl files)
  from Cons.prems(1) obtain j f where j: "load fl = Inr j" and f: "getf j = Inr f"
    and rest: "ingest_loop load getf (AList.update f j acc) files = Inr jobs"
    by (auto split: sum.splits)
  from Cons.prems(2) j f have "f \<noteq> k" by auto
  moreover from Cons.IH [OF rest] Cons.prems(2)
  have "map_of jobs k = map_of (AList.update f j acc) k" by simp
  ultimately show ?case by (simp add: update_conv')
qed

text \<open>
  C6. When every file loads and yields a filter name, \<open>ingest_data\<close> returns a mapping
  with one binding per filter name; if \<open>file\<close> is the last file in the list whose job
  has the filter name \<open>filter_name\<close>, that name is bound to the job of \<open>file\<close>, and no
  other job with that filter name occurs in the result (last write wins).
\<close>

theorem ingest_data_last_wins:
  assumes "\<forall>p \<in> set filenames. \<exists>j f. load p = Inr j \<and> getf j = Inr f"
    and "filenames = pre @ file # post"
    and "load file = Inr job" and "getf job = Inr filter_name"
    and "\<forall>p \<in> set post. \<forall>j. load p = Inr j \<longrightarrow> getf j \<noteq> Inr filter_name"
  shows "\<exists>jobs. ingest_data load getf filenames = Inr jobs
           \<and> distinct (map fst jobs)
           \<and> map_of jobs filter_name = Some job
           \<and> (\<forall>k j. (k, j) \<in> set jobs \<and> getf j = Inr filter_name \<longrightarrow> k = filter_name \<and> j = job)"
proof -
  from ingest_loop_returns [OF assms(1), of "[]"]
  obtain jobs where jobs: "ingest_loop load getf [] filenames = Inr jobs" by blast
  have k0: "keyed getf ([] :: (string \<times> 'a) list)" by (simp add: keyed_def)
  from ingest_loop_keyed [OF jobs k0] have keyed: "keyed getf jobs" .
  from jobs assms(2) obtain acc1 where
    acc1: "ingest_loop load getf [] pre = Inr acc1"
    and tl: "ingest_loop load getf acc1 (file # post) = Inr jobs"
    by (auto simp: ingest_loop_append split: sum.splits)
  from tl assms(3,4)
  have post: "ingest_loop load getf (AList.update filter_name job acc1) post = Inr jobs"
    by simp
  from ingest_loop_other_keys [OF post assms(5)]
  have bound: "map_of jobs filter_name = Some job" by (simp add: update_conv')
  have only: "k = filter_name \<and> j = job"
    if "(k, j) \<in> set jobs" and "getf j = Inr filter_name" for k j
  proof -
    from keyed that have k: "k = filter_name" by (auto simp: keyed_def)
    from keyed that(1) have "map_of jobs k = Some j" by (simp add: keyed_def)
    with bound k show ?thesis by simp
  qed
  from jobs keyed bound only show ?thesis
    by (auto simp: ingest_data_def keyed_def)
qed

theorem ingest_data_last_wins_witness:
  "\<exists>jobs. ingest_data load_example filter_example [''a.json'', ''b.json'', ''c.json''] = Inr jobs
       \<and> map_of jobs ''r'' = Some (''r'', 3)
       \<and> (''r'', (''r'', 1)) \<notin> set jobs"
proof -
  have 1: "\<forall>p \<in> set [''a.json'', ''b.json'', ''c.json''].
             \<exists>j f. load_example p = Inr j \<and> filter_example j = Inr f"
    by (simp add: load_example_def filter_example_def)
  have 2: "[''a.json'', ''b.json'', ''c.json''] = [''a.json'', ''b.json''] @ ''c.json'' # []"
    by simp
  have 3: "load_example ''c.json'' = Inr (''r'', 3)" by (simp add: load_example_def)
  have 4: "filter_example (''r'', 3 :: nat) = Inr ''r''" by (simp add: filter_example_def)
  have 5: "\<forall>p \<in> set []. \<forall>j. load_example p = Inr j \<longrightarrow> filter_example j \<noteq> Inr ''r''"
    by simp
  have 6: "filter_example (''r'', 1 :: nat) = Inr ''r''" by (simp add: filter_example_def)
  from ingest_data_last_wins [OF 1 2 3 4 5] 6 show ?thesis by fastforce
qed

subsection \<open>Tabulation\<close>

lemma meas_loop_rows:
  assumes "\<forall>meas \<in> set ms. tabulated level (f, meas) \<longrightarrow> has_spec level (f, meas)"
  shows "meas_loop level f rs ms
           = Inr (rs @ map (\<lambda>fm. butlast (row_of level fm))
                          (filter (tabulated level) (map (Pair f) ms)))"
  using assms
proof (induction ms arbitrary: rs)
  case Nil
  then show ?case by simp
next
  case (Cons meas ms)
  show ?case
  proof (cases "tabulated level (f, meas)")
    case False
    with Cons show ?thesis by (simp add: tabulated_def)
  next
    case True
    with Cons.prems obtain spec where "get_spec (meas_metric meas) level f = Inr spec"
      by (cases "get_spec (meas_metric meas) level f") (auto simp: has_spec_def)
    with True Cons show ?thesis
      by (auto simp: tabulated_def row_of_def)
  qed
qed

lemma meas_loop_has_spec:
  "meas_loop level f rs ms = Inr rs'
   \<Longrightarrow> \<forall>meas \<in> set ms. tabulated level (f, meas) \<longrightarrow> has_spec level (f, meas)"
  by (induction ms arbitrary: rs)
     (auto simp: tabulated_def has_spec_def split: if_splits sum.splits)

lemma items_loop_rows:
  assumes "\<forall>fm \<in> set (all_measurements jobs). tabulated level fm \<longrightarrow> has_spec level fm"
  shows "items_loop level rs jobs
           = Inr (rs @ map (\<lambda>fm. butlast (row_of level fm))
                          (filter (tabulated level) (all_measurements jobs)))"
  using assms
proof (induction jobs arbitrary: rs)
  case Nil
  then show ?case by (simp add: all_measurements_def)
next
  case (Cons fo jobs)
  obtain f obj where fo: "fo = (f, obj)" by (cases fo)
  from Cons.prems fo
  have here: "\<forall>meas \<in> set (measurements obj). tabulated level (f, meas) \<longrightarrow> has_spec level (f, meas)"
    and rest: "\<forall>fm \<in> set (all_measurements jobs). tabulated level fm \<longrightarrow> has_spec level fm"
    by (auto simp: all_measurements_def)
  show ?case
    by (simp add: fo meas_loop_rows [OF here] Cons.IH [OF rest] all_measurements_def)
qed

lemma items_loop_has_spec:
  "items_loop level rs jobs = Inr rs'
   \<Longrightarrow> \<forall>fm \<in> set (all_measurements jobs). tabulated level fm \<longrightarrow> has_spec level fm"
proof (induction jobs arbitrary: rs)
  case Nil
  then show ?case by (simp add: all_measurements_def)
next
  case (Cons fo jobs)
  obtain f obj where fo: "fo = (f, obj)" by (cases fo)
  from Cons.prems fo obtain rs1 where 1: "meas_loop level f rs (measurements obj) = Inr rs1"
    and 2: "items_loop level rs1 jobs = Inr rs'"
    by (auto split: sum.splits)
  from meas_loop_has_spec [OF 1] Cons.IH [OF 2] show ?case
    by (auto simp: fo all_measurements_def)
qed



lemma objects_to_table_has_spec:
  "objects_to_table jobs level = Inr t
   \<Longrightarrow> \<forall>fm \<in> set (all_measurements jobs). tabulated level fm \<longrightarrow> has_spec level fm"
  by (auto simp: objects_to_table_def built_rows_def split: sum.splits dest!: items_loop_has_spec)



text \<open>
  C8 as stated fails: a measurement whose quantity is NaN is tabulated with the NaN
  value, not with the dash string. The test in the code is \<^verbatim>\<open>meas.quantity is None\<close>.
\<close>

theorem objects_to_table_nan_counterexample:
  "meas_quantity meas_nan = Some \<lparr>svalue = NaN, sunit = ''mas''\<rparr>
   \<and> \<not> isl (objects_to_table jobs_nan ''design'')
   \<and> table_rows (projr (objects_to_table jobs_nan ''design''))
       = [[PStr ''AM1'', PStr ''r'', PFloat NaN, PStr ''mas'', PStr ''<='', PFloat (Fin 10),
           PStr '''']]
   \<and> PFloat NaN \<noteq> PStr ''--''"
  by (simp add: objects_to_table_def built_rows_def jobs_nan_def meas_nan_def am1_metric_def this_row_def
      Table_def add_column_def mas_def)

text \<open>
  C8 (amended). In the rows that \<open>objects_to_table\<close> builds and hands to \<^verbatim>\<open>Table\<close>, the
  measured value of a row is the dash string exactly when the quantity of its
  measurement is \<^verbatim>\<open>None\<close>, and the numeric value of the quantity otherwise (NaN
  included).
\<close>

theorem built_rows_value:
  assumes "built_rows jobs level = Inr rs"
  shows "list_all2
           (\<lambda>(filter_name, meas) r.
              (r ! 2 = PStr ''--'' \<longleftrightarrow> meas_quantity meas = None)
              \<and> (\<forall>q. meas_quantity meas = Some q \<longrightarrow> r ! 2 = PFloat (svalue q)))
           (filter (\<lambda>(filter_name, meas). spec_name meas = None \<or> spec_name meas = Some level)
                   (all_measurements jobs))
           rs"
proof -
  have t: "tabulated level = (\<lambda>(filter_name, meas).
             spec_name meas = None \<or> spec_name meas = Some level)"
    by (auto simp: tabulated_def fun_eq_iff)
  from assms have il: "items_loop level [] jobs = Inr rs" by (simp add: built_rows_def)
  from items_loop_rows [OF items_loop_has_spec [OF il], of "[]"] il
  have r: "rs = map (\<lambda>fm. butlast (row_of level fm))
                    (filter (tabulated level) (all_measurements jobs))"
    by simp
  have v: "(butlast (row_of level (f, meas)) ! 2 = PStr ''--'' \<longleftrightarrow> meas_quantity meas = None)
           \<and> (\<forall>q. meas_quantity meas = Some q
                  \<longrightarrow> butlast (row_of level (f, meas)) ! 2 = PFloat (svalue q))"
    for f meas
    by (cases "meas_quantity meas")
       (simp_all add: row_of_def this_row_def Let_def numeral_2_eq_2)
  show ?thesis
    unfolding r t [symmetric]
    by (rule list_all2_all_nthI) (auto simp: v split: prod.splits)
qed

theorem built_rows_value_witness:
  "built_rows jobs_example ''design''
     = Inr [[PStr ''AM1'', PStr ''r'', PFloat (Fin 7), PStr ''mas'', PStr ''<='', PFloat (Fin 10)],
            [PStr ''AM1'', PStr ''r'', PStr ''--'', PNone, PStr ''<='', PFloat (Fin 10)]]
   \<and> list_all2
         (\<lambda>(filter_name, meas) r.
            (r ! 2 = PStr ''--'' \<longleftrightarrow> meas_quantity meas = None)
            \<and> (\<forall>q. meas_quantity meas = Some q \<longrightarrow> r ! 2 = PFloat (svalue q)))
         [(''r'', meas_design), (''r'', meas_untagged)]
         [[PStr ''AM1'', PStr ''r'', PFloat (Fin 7), PStr ''mas'', PStr ''<='', PFloat (Fin 10)],
          [PStr ''AM1'', PStr ''r'', PStr ''--'', PNone, PStr ''<='', PFloat (Fin 10)]]"
proof -
  have e: "built_rows jobs_example ''design''
     = Inr [[PStr ''AM1'', PStr ''r'', PFloat (Fin 7), PStr ''mas'', PStr ''<='', PFloat (Fin 10)],
            [PStr ''AM1'', PStr ''r'', PStr ''--'', PNone, PStr ''<='', PFloat (Fin 10)]]"
    by (simp add: built_rows_def jobs_example_def meas_design_def meas_minimum_def
        meas_untagged_def am1_metric_def this_row_def mas_def)
  have am: "filter (\<lambda>(filter_name, meas). spec_name meas = None \<or> spec_name meas = Some ''design'')
              (all_measurements jobs_example)
            = [(''r'', meas_design), (''r'', meas_untagged)]"
    by (simp add: all_measurements_def jobs_example_def meas_design_def meas_minimum_def
        meas_untagged_def)
  from built_rows_value [OF e] e show ?thesis
    unfolding am by simp
qed

subsection \<open>Formatting\<close>

lemma show_nat_nonempty: "show_nat n \<noteq> []"
  by (subst show_nat.simps) simp

lemma length_hundredths: "4 \<le> length (hundredths r)"
proof -
  have "1 \<le> length (show_nat (r div 100))"
    using show_nat_nonempty [of "r div 100"] by (cases "show_nat (r div 100)") simp_all
  then show ?thesis by (simp add: hundredths_def)
qed

lemma format_2f_not_dash: "format_2f x \<noteq> ''--''"
proof (cases x)
  case (Fin y)
  have "3 \<le> length (format_2f (Fin y))"
    using length_hundredths [of "round_half_even (\<bar>y\<bar> * 100)"] by simp
  with Fin show ?thesis by auto
qed simp_all

lemma round_half_even_near:
  assumes "0 \<le> y"
  shows "\<bar>real (round_half_even y) - y\<bar> \<le> 1 / 2"
proof -
  define f where "f = \<lfloor>y\<rfloor>"
  from assms have f0: "0 \<le> f" by (simp add: f_def)
  have lo: "real_of_int f \<le> y" by (simp add: f_def)
  have hi: "y < real_of_int f + 1" unfolding f_def by linarith
  from f0 have r0: "real (nat f) = real_of_int f" by simp
  from f0 have r1: "real (nat (f + 1)) = real_of_int f + 1" by simp
  show ?thesis
    unfolding round_half_even_def Let_def f_def [symmetric]
    using lo hi r0 r1 by (simp split: if_splits)
qed

text \<open>
  C9. With the default format, \<open>float_or_dash\<close> returns \<^verbatim>\<open>'--'\<close> for \<^verbatim>\<open>None\<close> and for
  \<^verbatim>\<open>'abc'\<close>, and \<^verbatim>\<open>'3.14'\<close> for 3.14159; for any value it returns the two-decimal
  rendering of the float the value coerces to, and \<^verbatim>\<open>'--'\<close> exactly when the
  coercion raises; the rendering of a finite float is its sign and the nearest
  hundredth of its magnitude, written with two digits after the point.
\<close>

theorem float_or_dash_two_decimals:
  "float_or_dash_default PNone = ''--''
   \<and> float_or_dash_default (PStr ''abc'') = ''--''
   \<and> float_or_dash_default (PFloat (Fin 3.14159)) = ''3.14''
   \<and> (\<forall>x. py_float v = Inr x \<longrightarrow> float_or_dash_default v = format_2f x)
   \<and> (float_or_dash_default v = ''--'' \<longleftrightarrow> isl (py_float v))
   \<and> (\<exists>r. \<bar>real r / 100 - \<bar>y\<bar>\<bar> \<le> 1 / 200
          \<and> format_2f (Fin y)
              = (if y < 0 then ''-'' else '''') @ show_nat (r div 100) @ ''.''
                  @ [digit_char (r mod 100 div 10), digit_char (r mod 10)])"
proof -
  have 1: "float_or_dash_default PNone = ''--''"
    by (simp add: float_or_dash_default_def float_or_dash_def)
  have 2: "float_or_dash_default (PStr ''abc'') = ''--''"
    by code_simp
  have 3: "float_or_dash_default (PFloat (Fin 3.14159)) = ''3.14''"
    by code_simp
  have 4: "\<forall>x. py_float v = Inr x \<longrightarrow> float_or_dash_default v = format_2f x"
    by (simp add: float_or_dash_default_def float_or_dash_def)
  have 5: "float_or_dash_default v = ''--'' \<longleftrightarrow> isl (py_float v)"
    by (cases "py_float v")
       (simp_all add: float_or_dash_default_def float_or_dash_def format_2f_not_dash)
  define r where "r = round_half_even (\<bar>y\<bar> * 100)"
  have "\<bar>real r - \<bar>y\<bar> * 100\<bar> \<le> 1 / 2"
    unfolding r_def by (rule round_half_even_near) simp
  then have "\<bar>real r / 100 - \<bar>y\<bar>\<bar> \<le> 1 / 200" by (simp add: abs_le_iff field_simps)
  moreover have "format_2f (Fin y)
      = (if y < 0 then ''-'' else '''') @ show_nat (r div 100) @ ''.''
          @ [digit_char (r mod 100 div 10), digit_char (r mod 10)]"
    by (simp add: r_def hundredths_def)
  ultimately have 6: "\<exists>r. \<bar>real r / 100 - \<bar>y\<bar>\<bar> \<le> 1 / 200
          \<and> format_2f (Fin y)
              = (if y < 0 then ''-'' else '''') @ show_nat (r div 100) @ ''.''
                  @ [digit_char (r mod 100 div 10), digit_char (r mod 10)]"
    by blast
  from 1 2 3 4 5 6 show ?thesis by blast
qed

theorem float_or_dash_two_decimals_witness:
  "py_float (PStr ''2.5'') = Inr (Fin 2.5)
   \<and> float_or_dash_default (PStr ''2.5'') = ''2.50''
   \<and> isl (py_float (PStr ''1_''))
   \<and> float_or_dash_default (PStr ''1_'') = ''--''"
proof -
  have a: "py_float (PStr ''2.5'') = Inr (Fin 2.5)" by code_simp
  have b: "format_2f (Fin 2.5) = ''2.50''" by code_simp
  have c: "isl (py_float (PStr ''1_''))" by code_simp
  from float_or_dash_two_decimals [of "PStr ''2.5''" 0]
  have "float_or_dash_default (PStr ''2.5'') = format_2f (Fin 2.5)" using a by blast
  moreover from float_or_dash_two_decimals [of "PStr ''1_''" 0] c
  have "float_or_dash_default (PStr ''1_'') = ''--''" by blast
  ultimately show ?thesis using a b c by simp
qed

end
